theory Spec2Isabelle
  imports Complex_Main "HOL-Library.Multiset"
begin

section \<open>Calibration: baseline signatures (package detection)\<close>




section \<open>Transport: the per-host circuit breaker (package transport)\<close>

text \<open>
  The two Go maps of the breaker are partial maps; reading a missing key of
  \<^verbatim>\<open>failureCounts\<close> gives 0, as in Go. Instants and durations are nanosecond counts; the
  reading of the clock is an argument of the operations that consult it.
\<close>

record CircuitBreaker =
  failureCounts :: "string \<rightharpoonup> int"
  lastFailure :: "string \<rightharpoonup> int"
  threshold :: int
  resetTimeout :: int

definition second :: int where
  "second = 1000000000"

definition NewCircuitBreaker :: CircuitBreaker where
  "NewCircuitBreaker =
     \<lparr>failureCounts = Map.empty, lastFailure = Map.empty,
      threshold = 10, resetTimeout = 30 * second\<rparr>"

definition count_of :: "CircuitBreaker \<Rightarrow> string \<Rightarrow> int" where
  "count_of cb host = (case failureCounts cb host of None \<Rightarrow> 0 | Some c \<Rightarrow> c)"

definition clear_host :: "CircuitBreaker \<Rightarrow> string \<Rightarrow> CircuitBreaker" where
  "clear_host cb host =
     cb\<lparr>failureCounts := (failureCounts cb)(host := None),
        lastFailure := (lastFailure cb)(host := None)\<rparr>"

definition isOpen :: "int \<Rightarrow> CircuitBreaker \<Rightarrow> string \<Rightarrow> bool \<times> CircuitBreaker" where
  "isOpen now cb host =
     (case lastFailure cb host of
        Some lastFail \<Rightarrow>
          if now - lastFail > resetTimeout cb then (False, clear_host cb host)
          else (count_of cb host \<ge> threshold cb, cb)
      | None \<Rightarrow> (count_of cb host \<ge> threshold cb, cb))"

definition recordFailure :: "int \<Rightarrow> CircuitBreaker \<Rightarrow> string \<Rightarrow> CircuitBreaker" where
  "recordFailure now cb host =
     cb\<lparr>failureCounts := (failureCounts cb)(host \<mapsto> count_of cb host + 1),
        lastFailure := (lastFailure cb)(host \<mapsto> now)\<rparr>"

definition recordSuccess :: "CircuitBreaker \<Rightarrow> string \<Rightarrow> CircuitBreaker" where
  "recordSuccess cb host = clear_host cb host"

text \<open>A breaker on which ten failures of one host were recorded, the last at instant 0.\<close>

definition breaker_tripped :: CircuitBreaker where
  "breaker_tripped =
     NewCircuitBreaker\<lparr>failureCounts := [''example.com'' \<mapsto> 10],
                        lastFailure := [''example.com'' \<mapsto> 0]\<rparr>"

section \<open>Transport: one call of DoContext (package transport)\<close>
















section \<open>Go's strings package on byte strings\<close>

text \<open>
  A Go string is a byte sequence, here a \<open>char list\<close>. The functions below follow the
  package's behaviour on ASCII text: \<open>ToLower\<close> maps the letters A to Z only and
  \<open>TrimSpace\<close> removes the six ASCII white-space bytes only. An index result is an
  \<open>int\<close>, with \<open>-1\<close> for "not found" as in Go.
\<close>

definition HasPrefix :: "string \<Rightarrow> string \<Rightarrow> bool" where
  "HasPrefix s p \<longleftrightarrow> take (length p) s = p"

definition HasSuffix :: "string \<Rightarrow> string \<Rightarrow> bool" where
  "HasSuffix s p \<longleftrightarrow> length p \<le> length s \<and> drop (length s - length p) s = p"

definition TrimPrefix :: "string \<Rightarrow> string \<Rightarrow> string" where
  "TrimPrefix s p = (if HasPrefix s p then drop (length p) s else s)"

definition TrimSuffix :: "string \<Rightarrow> string \<Rightarrow> string" where
  "TrimSuffix s p = (if HasSuffix s p then take (length s - length p) s else s)"

fun Index :: "string \<Rightarrow> string \<Rightarrow> int" where
  "Index [] sub = (if sub = [] then 0 else -1)"
| "Index (c # s) sub =
     (if HasPrefix (c # s) sub then 0
      else (let i = Index s sub in if i < 0 then -1 else i + 1))"

fun LastIndex :: "string \<Rightarrow> string \<Rightarrow> int" where
  "LastIndex [] sub = (if sub = [] then 0 else -1)"
| "LastIndex (c # s) sub =
     (let i = LastIndex s sub in
      if i \<ge> 0 then i + 1 else if HasPrefix (c # s) sub then 0 else -1)"

definition Contains :: "string \<Rightarrow> string \<Rightarrow> bool" where
  "Contains s sub \<longleftrightarrow> Index s sub \<ge> 0"

text \<open>\<open>SplitN s sep n\<close> for a non-empty separator and \<open>n \<ge> 0\<close>.\<close>

fun SplitN :: "string \<Rightarrow> string \<Rightarrow> nat \<Rightarrow> string list" where
  "SplitN s sep 0 = []"
| "SplitN s sep (Suc 0) = [s]"
| "SplitN s sep (Suc (Suc n)) =
     (let i = Index s sep in
      if i < 0 then [s]
      else take (nat i) s # SplitN (drop (nat i + length sep) s) sep (Suc n))"

definition ToLower_char :: "char \<Rightarrow> char" where
  "ToLower_char c =
     (if 65 \<le> (of_char c :: nat) \<and> (of_char c :: nat) \<le> 90
      then char_of (of_char c + 32 :: nat) else c)"

definition ToUpper_char :: "char \<Rightarrow> char" where
  "ToUpper_char c =
     (if 97 \<le> (of_char c :: nat) \<and> (of_char c :: nat) \<le> 122
      then char_of (of_char c - 32 :: nat) else c)"

definition ToLower :: "string \<Rightarrow> string" where
  "ToLower s = map ToLower_char s"

definition ToUpper :: "string \<Rightarrow> string" where
  "ToUpper s = map ToUpper_char s"

definition is_space :: "char \<Rightarrow> bool" where
  "is_space c \<longleftrightarrow>
     (of_char c :: nat) = 32 \<or> (9 \<le> (of_char c :: nat) \<and> (of_char c :: nat) \<le> 13)"

text \<open>\<open>Trim s cutset\<close> removes the leading and trailing bytes that occur in the cutset.\<close>

definition Trim :: "string \<Rightarrow> string \<Rightarrow> string" where
  "Trim s cutset =
     rev (dropWhile (\<lambda>c. c \<in> set cutset) (rev (dropWhile (\<lambda>c. c \<in> set cutset) s)))"

definition TrimSpace :: "string \<Rightarrow> string" where
  "TrimSpace s = rev (dropWhile is_space (rev (dropWhile is_space s)))"

section \<open>WAF detection from the body (package detection)\<close>

text \<open>
  \<^verbatim>\<open>bodyPatterns\<close> is a Go map literal, and the loop ranges over the map. Go leaves the
  iteration order of a map unspecified and randomises it from one \<^verbatim>\<open>range\<close> to the next,
  so the order in which the runtime yields the entries is an argument of the model: any
  list with the same entries as \<open>bodyPatterns\<close>. The status code argument is unused in
  the source.
\<close>

definition bodyPatterns :: "(string \<times> string) list" where
  "bodyPatterns =
     [(''Access Denied'', ''Generic WAF''),
      (''Request blocked'', ''Generic WAF''),
      (''Sorry, you have been blocked'', ''Cloudflare''),
      (''This request has been blocked'', ''Generic WAF''),
      (''Web Application Firewall'', ''Generic WAF''),
      (''<title>Attention Required'', ''Cloudflare''),
      (''<title>Just a moment'', ''Cloudflare''),
      (''Powered by Wordfence'', ''Wordfence''),
      (''ModSecurity'', ''ModSecurity''),
      (''<title>403 Forbidden</title>'', ''Generic WAF'')]"

fun range_bodyPatterns :: "string \<Rightarrow> (string \<times> string) list \<Rightarrow> string" where
  "range_bodyPatterns lowerBody [] = []"
| "range_bodyPatterns lowerBody ((pattern, wafName) # rest) =
     (if Contains lowerBody (ToLower pattern) then wafName
      else range_bodyPatterns lowerBody rest)"

definition iteration_order :: "(string \<times> string) list \<Rightarrow> bool" where
  "iteration_order order \<longleftrightarrow> mset order = mset bodyPatterns"

definition DetectWAFFromBody :: "(string \<times> string) list \<Rightarrow> string \<Rightarrow> int \<Rightarrow> string" where
  "DetectWAFFromBody order body statusCode = range_bodyPatterns (ToLower body) order"

section \<open>Credential detection (package detection)\<close>

text \<open>
  A compiled regular expression is represented by what the code asks of it: the function
  from a content string to its leftmost match, \<open>None\<close> when \<^verbatim>\<open>MatchString\<close> is false.
  The pattern table is an argument of the detector. Entropy is computed over the reals;
  on ASCII text a rune is a byte.
\<close>

datatype Severity = SeverityCritical | SeverityHigh | SeverityMedium | SeverityLow

record SecretPattern =
  Name :: string
  Pattern :: "string \<Rightarrow> string option"
  Severity :: Severity
  MinEntropy :: real
  RequireContext :: bool

record SecretMatch =
  Name :: string
  Severity :: Severity
  Redacted :: string

definition ShannonEntropy :: "string \<Rightarrow> real" where
  "ShannonEntropy s =
     (if length s = 0 then 0
      else fold (\<lambda>c entropy.
                   let p = real (count_list s c) / real (length s)
                   in if p > 0 then entropy - p * log 2 p else entropy)
             (remdups s) 0)"

definition quote_cutset :: string where
  "quote_cutset = [CHR 0x22, CHR 0x27, CHR 0x20]"

definition value_separators :: "string list" where
  "value_separators = [''='', '':'', [CHR 0x22], [CHR 0x27]]"

fun extractValue_loop :: "string \<Rightarrow> string list \<Rightarrow> string" where
  "extractValue_loop match [] = match"
| "extractValue_loop match (sep # seps) =
     (let idx = LastIndex match sep in
      if idx \<ge> 0 then
        (let val = Trim (TrimSpace (drop (nat (idx + 1)) match)) quote_cutset
         in if length val > 0 then val else extractValue_loop match seps)
      else extractValue_loop match seps)"

definition extractValue :: "string \<Rightarrow> string" where
  "extractValue match = extractValue_loop match value_separators"

definition RedactSecret :: "string \<Rightarrow> string" where
  "RedactSecret secret =
     (if length secret \<le> 8 then replicate (length secret) (CHR ''*'')
      else take 4 secret @ replicate (length secret - 8) (CHR ''*'')
             @ drop (length secret - 4) secret)"

fun detect_loop ::
  "SecretPattern list \<Rightarrow> string \<Rightarrow> (string \<Rightarrow> bool) \<Rightarrow> SecretMatch list \<Rightarrow> SecretMatch list" where
  "detect_loop [] content secretMap foundSecrets = foundSecrets"
| "detect_loop (pattern # rest) content secretMap foundSecrets =
     (case Pattern pattern content of
        None \<Rightarrow> detect_loop rest content secretMap foundSecrets
      | Some match \<Rightarrow>
          if secretMap (SecretPattern.Name pattern)
          then detect_loop rest content secretMap foundSecrets
          else if MinEntropy pattern > 0
                  \<and> ShannonEntropy (extractValue match) < MinEntropy pattern
          then detect_loop rest content secretMap foundSecrets
          else detect_loop rest content (secretMap(SecretPattern.Name pattern := True))
                 (foundSecrets @
                    [\<lparr>SecretMatch.Name = SecretPattern.Name pattern,
                      SecretMatch.Severity = SecretPattern.Severity pattern,
                      Redacted = RedactSecret match\<rparr>]))"

definition DetectSecretsDetailed :: "SecretPattern list \<Rightarrow> string \<Rightarrow> SecretMatch list" where
  "DetectSecretsDetailed patterns content = detect_loop patterns content (\<lambda>name. False) []"

definition DetectSecrets :: "SecretPattern list \<Rightarrow> string \<Rightarrow> string list" where
  "DetectSecrets patterns content = map SecretMatch.Name (DetectSecretsDetailed patterns content)"

text \<open>
  The value portion as the specification words it: the substring after the last
  occurrence of any of the four separators, trimmed of white space and quotes, and the
  whole match when there is no separator or nothing is left after trimming.
\<close>

definition last_separator :: "string \<Rightarrow> int" where
  "last_separator match = fold (\<lambda>sep i. max i (LastIndex match sep)) value_separators (-1)"

definition extractValue_spec :: "string \<Rightarrow> string" where
  "extractValue_spec match =
     (let idx = last_separator match in
      if idx \<ge> 0 then
        (let val = Trim (TrimSpace (drop (nat (idx + 1)) match)) quote_cutset
         in if length val > 0 then val else match)
      else match)"

text \<open>
  The Generic Password row of the table, with the regular expression
  \<^verbatim>\<open>(?i)(password|passwd|pwd)["'\s:=]+([^\s"']{8,})\<close> represented by the one match it
  finds in the two contents used below.
\<close>

definition generic_password :: SecretPattern where
  "generic_password =
     \<lparr>SecretPattern.Name = ''Generic Password'',
      Pattern = (\<lambda>content.
         if content = ''password=aaaaaaaa'' \<or> content = ''password=ab:cdefgh''
         then Some content else None),
      SecretPattern.Severity = SeverityMedium,
      MinEntropy = 3,
      RequireContext = False\<rparr>"

definition accepted :: "string \<Rightarrow> SecretPattern \<Rightarrow> bool" where
  "accepted content p =
     (case Pattern p content of
        None \<Rightarrow> False
      | Some match \<Rightarrow>
          \<not> (MinEntropy p > 0 \<and> ShannonEntropy (extractValue match) < MinEntropy p))"

section \<open>Properties of the baseline matcher\<close>





section \<open>Properties of the circuit breaker\<close>

text \<open>
  C5. For a breaker with the constants of \<^verbatim>\<open>NewClient\<close> (threshold 10, reset timeout 30 s):
  \<open>isOpen\<close> removes the host's two entries and answers false when the host has a last
  failure more than 30 s before now, and otherwise leaves the breaker as it is and answers
  whether the host's failure count is at least 10; \<open>recordFailure\<close> adds one to the
  host's count and sets its last failure to now; \<open>recordSuccess\<close> removes both entries
  of the host, and a host without entries is not open.
\<close>

theorem C5_circuit_breaker:
  assumes "threshold cb = 10" and "resetTimeout cb = 30 * second"
  shows "(lastFailure cb host = Some t \<and> now - t > 30 * second \<longrightarrow>
            \<not> fst (isOpen now cb host)
            \<and> failureCounts (snd (isOpen now cb host)) host = None
            \<and> lastFailure (snd (isOpen now cb host)) host = None)
    \<and> (lastFailure cb host = None \<or> (lastFailure cb host = Some t \<and> now - t \<le> 30 * second) \<longrightarrow>
            isOpen now cb host = (10 \<le> count_of cb host, cb))
    \<and> count_of (recordFailure now cb host) host = count_of cb host + 1
    \<and> lastFailure (recordFailure now cb host) host = Some now
    \<and> failureCounts (recordSuccess cb host) host = None
    \<and> lastFailure (recordSuccess cb host) host = None
    \<and> (failureCounts cb host = None \<and> lastFailure cb host = None \<longrightarrow>
            \<not> fst (isOpen now cb host))
    \<and> \<not> fst (isOpen now (recordSuccess cb host) host)"
  using assms
  by (auto simp: isOpen_def clear_host_def recordFailure_def recordSuccess_def count_of_def)

theorem C5_circuit_breaker_witness:
  "\<not> fst (isOpen (31 * second) breaker_tripped ''example.com'')
   \<and> failureCounts (snd (isOpen (31 * second) breaker_tripped ''example.com'')) ''example.com'' = None
   \<and> fst (isOpen (30 * second) breaker_tripped ''example.com'')
   \<and> count_of (recordFailure 7 breaker_tripped ''example.com'') ''example.com'' = 11
   \<and> \<not> fst (isOpen 5 NewCircuitBreaker ''example.com'')"
  using C5_circuit_breaker [of breaker_tripped "''example.com''" 0 "31 * second"]
    C5_circuit_breaker [of breaker_tripped "''example.com''" 0 "30 * second"]
    C5_circuit_breaker [of breaker_tripped "''example.com''" 0 7]
    C5_circuit_breaker [of NewCircuitBreaker "''example.com''" 0 5]
  by (simp add: breaker_tripped_def NewCircuitBreaker_def count_of_def second_def)

section \<open>Properties of the retry loop\<close>







section \<open>Properties of the body-based WAF check\<close>

text \<open>
  C7. The claim: two evaluations of the body check on the same body return the same WAF
  name, that of the first matching phrase in a fixed list order. The source ranges over
  a map: for the body below, which holds the phrases "Access Denied" (Generic WAF) and
  "Sorry, you have been blocked" (Cloudflare), one admissible iteration order returns
  Generic WAF and another returns Cloudflare.
\<close>

theorem C7_body_check_depends_on_map_order:
  "iteration_order bodyPatterns \<and> iteration_order (rev bodyPatterns)
   \<and> DetectWAFFromBody bodyPatterns ''Access Denied. Sorry, you have been blocked'' 403
        = ''Generic WAF''
   \<and> DetectWAFFromBody (rev bodyPatterns) ''Access Denied. Sorry, you have been blocked'' 403
        = ''Cloudflare''"
proof -
  have "iteration_order bodyPatterns" "iteration_order (rev bodyPatterns)"
    by (simp_all add: iteration_order_def)
  moreover have "DetectWAFFromBody bodyPatterns
      ''Access Denied. Sorry, you have been blocked'' 403 = ''Generic WAF''"
    by code_simp
  moreover have "DetectWAFFromBody (rev bodyPatterns)
      ''Access Denied. Sorry, you have been blocked'' 403 = ''Cloudflare''"
    by code_simp
  ultimately show ?thesis by simp
qed

end
